theory Spec2Isabelle
  imports Complex_Main
begin

section \<open>The Prius controller node (car\_demo/src/PriusControllerRos.cpp)\<close>

text \<open>
  The node is a class with four boolean members, a cached odometry message, a path tracker
  and a publisher. Its callbacks are run one at a time by the ROS spinner, so each callback
  is a function from the node's state to the node's next state. What the node sends out
  (control messages, log lines, calls on the tracker) is appended to lists kept in the state.
\<close>

subsection \<open>Messages\<close>

text \<open>
  Modelled from the spec: \<^verbatim>\<open>prius_msgs::PriusControl\<close> is declared in
  \<^verbatim>\<open>prius_msgs/Control.h\<close>, which is not among the sources. The spec gives the command
  a gear, a steering value and a throttle value. The two values are \<^verbatim>\<open>double\<close> in the
  source; the controller only stores literals in them and never computes with them, so they
  are kept as the numbers the literals denote.
\<close>

datatype Gear = FORWARD | REVERSE | NEUTRAL | PARK

record PriusControl =
  gear :: Gear
  steer :: real
  throttle :: real

text \<open>
  Modelled from the spec: \<^verbatim>\<open>se2_navigation_msgs::ControllerCommand::Command\<close> is declared
  in a header that is not among the sources. The spec lists the requests; every value that is
  neither of the first two reaches the \<^verbatim>\<open>default\<close> label of the switch.
\<close>

datatype Command = StartTracking | StopTracking | Unknown

text \<open>
  \<^verbatim>\<open>se2_navigation_msgs::Path\<close>: the controller reads \<^verbatim>\<open>segment_.empty()\<close> and
  \<^verbatim>\<open>segment_.size()\<close> only, so the segment type is left open.
\<close>

record 'seg Path =
  segment :: "'seg list"

text \<open>
  \<^verbatim>\<open>nav_msgs::Odometry\<close>: the controller reads \<^verbatim>\<open>pose.pose\<close> and \<^verbatim>\<open>twist.twist\<close>
  only; the header, the child frame and the covariances are never read.
\<close>

record ('p, 'w) Odometry =
  pose_pose :: 'p
  twist_twist :: 'w

text \<open>\<^verbatim>\<open>CurrentStateService::Response\<close>.\<close>

record ('p, 'w) Response =
  res_pose :: 'p
  res_twist :: 'w

subsection \<open>The external collaborators\<close>

text \<open>
  The path tracker (\<^verbatim>\<open>pure_pursuit::PathTracker\<close>) and the fail-proof command
  (\<^verbatim>\<open>prius_msgs::PriusControl::getFailProofControlCommand\<close>) are not among the sources.
  They are parameters of the model: a tracker is a state of type \<open>'t\<close> with the four
  member functions the controller calls, and the fail-proof command is some command.
\<close>

record 't External =
  pathTracker_advance :: "'t \<Rightarrow> bool \<times> 't"
  pathTracker_getSteeringAngle :: "'t \<Rightarrow> real"
  pathTracker_getLongitudinalVelocity :: "'t \<Rightarrow> real"
  pathTracker_stopTracking :: "'t \<Rightarrow> 't"
  getFailProofControlCommand :: PriusControl

datatype TrackerCall =
  CallAdvance | CallGetSteeringAngle | CallGetLongitudinalVelocity | CallStopTracking

datatype LogLevel = INFO | WARN | ERROR

subsection \<open>The node\<close>

text \<open>
  The members of \<^verbatim>\<open>PriusControllerRos\<close> that the callbacks read or write. Three lists
  record what leaves the node: \<open>priusControlPub\<close> holds the messages published on
  \<^verbatim>\<open>/prius_controls\<close>, \<open>trackerCalls\<close> the member functions called on
  \<^verbatim>\<open>pathTracker_\<close>, and \<open>rosout\<close> the lines written by the \<^verbatim>\<open>ROS_*_STREAM\<close> macros,
  each in the order of the calls. The members \<^verbatim>\<open>nh_\<close> and \<^verbatim>\<open>dt_\<close> and the functions
  \<^verbatim>\<open>initialize\<close> and \<^verbatim>\<open>createControllerAndLoadParameters\<close>, which build the tracker
  from parameter files, are left out: the node of the model holds a constructed tracker.
  A member's name is written without its trailing
  underscore (\<open>planReceived\<close> is \<^verbatim>\<open>planReceived_\<close>), which a constant's name cannot
  end with.
\<close>

record ('t, 'p, 'w) PriusControllerRos =
  planReceived :: bool
  currentlyExecutingPlan :: bool
  receivedStartTrackingCommand :: bool
  publishTrackingStatus :: bool
  priusState :: "('p, 'w) Odometry"
  pathTracker :: 't
  trackerCalls :: "TrackerCall list"
  priusControlPub :: "PriusControl list"
  rosout :: "(LogLevel \<times> string) list"

definition ROS_INFO_STREAM ::
  "string \<Rightarrow> ('t, 'p, 'w) PriusControllerRos \<Rightarrow> ('t, 'p, 'w) PriusControllerRos" where
  "ROS_INFO_STREAM msg s = s\<lparr>rosout := rosout s @ [(INFO, msg)]\<rparr>"

definition ROS_WARN_STREAM ::
  "string \<Rightarrow> ('t, 'p, 'w) PriusControllerRos \<Rightarrow> ('t, 'p, 'w) PriusControllerRos" where
  "ROS_WARN_STREAM msg s = s\<lparr>rosout := rosout s @ [(WARN, msg)]\<rparr>"

definition ROS_ERROR_STREAM ::
  "string \<Rightarrow> ('t, 'p, 'w) PriusControllerRos \<Rightarrow> ('t, 'p, 'w) PriusControllerRos" where
  "ROS_ERROR_STREAM msg s = s\<lparr>rosout := rosout s @ [(ERROR, msg)]\<rparr>"

text \<open>What \<^verbatim>\<open>operator<<\<close> writes for a \<^verbatim>\<open>size_t\<close>: the decimal digits.\<close>

definition digitChar :: "nat \<Rightarrow> char" where
  "digitChar d = ''0123456789'' ! d"

function showNat :: "nat \<Rightarrow> string" where
  "showNat n = (if n < 10 then [digitChar n] else showNat (n div 10) @ [digitChar (n mod 10)])"
  by pat_completeness auto
termination
  by (relation "measure (\<lambda>n. n)") auto

declare showNat.simps [simp del]

text \<open>The texts of the log lines, as the source writes them.\<close>

definition msgAdvanceFailed :: string where
  "msgAdvanceFailed = ''Failed to advance path tracker.''"

definition msgStoppedTracking :: string where
  "msgStoppedTracking = ''PriusControllerRos stopped tracking''"

definition msgTrackingPreviousPlan :: string where
  "msgTrackingPreviousPlan =
     ''PathFollowerRos:: Robot is tracking the previous plan. Rejecting this one.''"

definition msgEmptyPlan :: string where
  "msgEmptyPlan = ''Path follower received an empty plan!''"

definition msgPlanReceived :: "nat \<Rightarrow> string" where
  "msgPlanReceived n =
     ''PathFollowerRos subscriber received a plan, num segments: '' @ showNat n"

definition msgUnknownCommand :: string where
  "msgUnknownCommand = ''PATH FOLLOWER ROS: Unknown command''"

definition msgNoPlanYet :: string where
  "msgNoPlanYet =
     ''PriusControllerRos:: Rejecting  the start command since the robot hasn't received a plan yet''"

definition msgAlreadyExecuting :: string where
  "msgAlreadyExecuting =
     ''PriusControllerRos:: Rejecting  the start command since the robot is already executing another plan''"

definition msgStartRequested :: string where
  "msgStartRequested = ''PriusControllerRos:: Start tracking requested''"

definition msgCannotStop :: string where
  "msgCannotStop = ''PriusControllerRos:: Not tracking any plans at the moment, cannot stop''"

text \<open>
  \<^verbatim>\<open>publishControl\<close>: \<^verbatim>\<open>priusControlPub_.publish(prius_msgs::convert(ctrl))\<close>. The
  conversion to the wire message is not among the sources; the published message is
  recorded as the command it was made from.
\<close>

definition publishControl ::
  "PriusControl \<Rightarrow> ('t, 'p, 'w) PriusControllerRos \<Rightarrow> ('t, 'p, 'w) PriusControllerRos" where
  "publishControl ctrl s = s\<lparr>priusControlPub := priusControlPub s @ [ctrl]\<rparr>"

definition stopTracking ::
  "'t External \<Rightarrow> ('t, 'p, 'w) PriusControllerRos \<Rightarrow> ('t, 'p, 'w) PriusControllerRos" where
  "stopTracking X s =
     (let s1 = ROS_INFO_STREAM msgStoppedTracking s;
          s2 = s1\<lparr>currentlyExecutingPlan := False\<rparr>;
          s3 = s2\<lparr>receivedStartTrackingCommand := False\<rparr>;
          s4 = s3\<lparr>planReceived := False\<rparr>
      in s4\<lparr>pathTracker := pathTracker_stopTracking X (pathTracker s4),
             trackerCalls := trackerCalls s4 @ [CallStopTracking]\<rparr>)"

text \<open>
  The command that \<^verbatim>\<open>advance\<close> builds in its local \<^verbatim>\<open>control\<close> after the branch on the
  tracker's result (lines 87 to 89).
\<close>

definition fixedControl :: PriusControl where
  "fixedControl = \<lparr>gear = FORWARD, steer = 0.8, throttle = 0.02\<rparr>"

text \<open>
  \<^verbatim>\<open>advance\<close>, the periodic control step. The local \<^verbatim>\<open>controlCommand\<close> is assigned in
  the failure branch and never read; the locals \<^verbatim>\<open>steering\<close> and \<^verbatim>\<open>velocity\<close> are
  read from the tracker and never used. The message published at the end is \<^verbatim>\<open>control\<close>.
\<close>

definition advance ::
  "'t External \<Rightarrow> ('t, 'p, 'w) PriusControllerRos \<Rightarrow> ('t, 'p, 'w) PriusControllerRos" where
  "advance X s =
     (let readyToTrack = planReceived s \<and> receivedStartTrackingCommand s in
      if \<not> readyToTrack then publishControl (getFailProofControlCommand X) s
      else
        (case pathTracker_advance X (pathTracker s) of
           (ok, t') \<Rightarrow>
             (let s1 = s\<lparr>pathTracker := t', trackerCalls := trackerCalls s @ [CallAdvance]\<rparr>;
                  s2 = (if \<not> ok then
                          (let e1 = ROS_ERROR_STREAM msgAdvanceFailed s1;
                               controlCommand = getFailProofControlCommand X;
                               e2 = stopTracking X e1
                           in e2\<lparr>publishTrackingStatus := True\<rparr>)
                        else
                          (let steering = pathTracker_getSteeringAngle X (pathTracker s1);
                               velocity = pathTracker_getLongitudinalVelocity X (pathTracker s1)
                           in s1\<lparr>trackerCalls := trackerCalls s1 @
                                  [CallGetSteeringAngle, CallGetLongitudinalVelocity]\<rparr>));
                  control = fixedControl
              in publishControl control s2)))"

text \<open>
  \<^verbatim>\<open>pathCallback\<close>. The conversion of the wire message is not among the sources; the
  callback is given the converted path. The path is a local of the callback: nothing of it
  is stored in a member.
\<close>

definition pathCallback ::
  "'seg Path \<Rightarrow> ('t, 'p, 'w) PriusControllerRos \<Rightarrow> ('t, 'p, 'w) PriusControllerRos" where
  "pathCallback path s =
     (if currentlyExecutingPlan s then ROS_WARN_STREAM msgTrackingPreviousPlan s
      else if segment path = [] then ROS_WARN_STREAM msgEmptyPlan s
      else (ROS_INFO_STREAM (msgPlanReceived (length (segment path))) s)
             \<lparr>planReceived := True\<rparr>)"

definition priusStateCallback ::
  "('p, 'w) Odometry \<Rightarrow> ('t, 'p, 'w) PriusControllerRos \<Rightarrow> ('t, 'p, 'w) PriusControllerRos" where
  "priusStateCallback odometry s = s\<lparr>priusState := odometry\<rparr>"

text \<open>
  \<^verbatim>\<open>currentStateRequestService\<close> is not a const member function, so the model returns
  the node's state next to the return value and the filled response.
\<close>

definition currentStateRequestService ::
  "('t, 'p, 'w) PriusControllerRos \<Rightarrow> bool \<times> ('p, 'w) Response \<times> ('t, 'p, 'w) PriusControllerRos" where
  "currentStateRequestService s =
     (True, \<lparr>res_pose = pose_pose (priusState s), res_twist = twist_twist (priusState s)\<rparr>, s)"

definition processStartTrackingCommand ::
  "('t, 'p, 'w) PriusControllerRos \<Rightarrow> ('t, 'p, 'w) PriusControllerRos" where
  "processStartTrackingCommand s =
     (if \<not> planReceived s then ROS_WARN_STREAM msgNoPlanYet s
      else if currentlyExecutingPlan s then ROS_WARN_STREAM msgAlreadyExecuting s
      else (ROS_WARN_STREAM msgStartRequested s)
             \<lparr>currentlyExecutingPlan := True, receivedStartTrackingCommand := True\<rparr>)"

definition processAbortTrackingCommand ::
  "'t External \<Rightarrow> ('t, 'p, 'w) PriusControllerRos \<Rightarrow> ('t, 'p, 'w) PriusControllerRos" where
  "processAbortTrackingCommand X s =
     (if \<not> currentlyExecutingPlan s then ROS_WARN_STREAM msgCannotStop s
      else stopTracking X s)"

text \<open>\<^verbatim>\<open>controllerCommandService\<close>: the return value and the node's next state.\<close>

fun controllerCommandService ::
  "'t External \<Rightarrow> Command \<Rightarrow> ('t, 'p, 'w) PriusControllerRos \<Rightarrow>
     bool \<times> ('t, 'p, 'w) PriusControllerRos" where
  "controllerCommandService X StartTracking s = (True, processStartTrackingCommand s)"
| "controllerCommandService X StopTracking s = (True, processAbortTrackingCommand X s)"
| "controllerCommandService X Unknown s = (True, ROS_WARN_STREAM msgUnknownCommand s)"

subsection \<open>Runs of the node\<close>

text \<open>
  The events the node reacts to: a message on the path topic, a request on the command
  service, a message on the odometry topic, the periodic call of \<^verbatim>\<open>advance\<close>, and a
  request on the current-state service.
\<close>

datatype ('seg, 'p, 'w) Event =
  PathMsg "'seg Path"
  | CommandRequest Command
  | OdometryMsg "('p, 'w) Odometry"
  | Tick
  | StateRequest

fun dispatch ::
  "'t External \<Rightarrow> ('t, 'p, 'w) PriusControllerRos \<Rightarrow> ('seg, 'p, 'w) Event \<Rightarrow>
     ('t, 'p, 'w) PriusControllerRos" where
  "dispatch X s (PathMsg path) = pathCallback path s"
| "dispatch X s (CommandRequest c) = snd (controllerCommandService X c s)"
| "dispatch X s (OdometryMsg odometry) = priusStateCallback odometry s"
| "dispatch X s Tick = advance X s"
| "dispatch X s StateRequest = snd (snd (currentStateRequestService s))"

fun run ::
  "'t External \<Rightarrow> ('t, 'p, 'w) PriusControllerRos \<Rightarrow> ('seg, 'p, 'w) Event list \<Rightarrow>
     ('t, 'p, 'w) PriusControllerRos" where
  "run X s [] = s"
| "run X s (e # es) = run X (dispatch X s e) es"

text \<open>
  Modelled from the spec: the initial values of the members are given in
  \<^verbatim>\<open>car_demo/PriusControllerRos.hpp\<close>, which is not among the sources. The spec creates
  the session idle, with no plan received and no command given. The tracker the node was
  constructed with and the default-constructed odometry message are parameters.
\<close>

definition initialState :: "'t \<Rightarrow> ('p, 'w) Odometry \<Rightarrow> ('t, 'p, 'w) PriusControllerRos" where
  "initialState trk odom =
     \<lparr>planReceived = False, currentlyExecutingPlan = False,
      receivedStartTrackingCommand = False, publishTrackingStatus = False,
      priusState = odom, pathTracker = trk, trackerCalls = [],
      priusControlPub = [], rosout = []\<rparr>"

subsection \<open>The session status of the specification\<close>

text \<open>
  The spec speaks of one status where the node has flags. The session is tracking when
  \<^verbatim>\<open>advance\<close> finds it ready to track (plan received and start command received); a plan
  is staged when one was received and the session is not tracking; otherwise it is idle.
  The spec's fourth status, faulted, is never a resting state.
\<close>

datatype Status = Idle | PlanStaged | Tracking | Faulted

definition status :: "('t, 'p, 'w) PriusControllerRos \<Rightarrow> Status" where
  "status s =
     (if planReceived s \<and> receivedStartTrackingCommand s then Tracking
      else if planReceived s then PlanStaged
      else Idle)"

text \<open>
  The three flags agree with each other: the start command was received exactly when a plan
  is being executed, and a plan is being executed only when one was received.
\<close>

definition flagsInSync :: "('t, 'p, 'w) PriusControllerRos \<Rightarrow> bool" where
  "flagsInSync s =
     (receivedStartTrackingCommand s = currentlyExecutingPlan s \<and>
      (currentlyExecutingPlan s \<longrightarrow> planReceived s))"

text \<open>
  \<^verbatim>\<open>pathCallback\<close> returns nothing. It rejects a plan by leaving through one of its two
  early returns, which write a warning and change nothing else.
\<close>

definition planRejected :: "'seg Path \<Rightarrow> ('t, 'p, 'w) PriusControllerRos \<Rightarrow> bool" where
  "planRejected path s =
     (pathCallback path s = ROS_WARN_STREAM msgTrackingPreviousPlan s \<or>
      pathCallback path s = ROS_WARN_STREAM msgEmptyPlan s)"

text \<open>
  The inputs that the spec lists as rejected, by the status of the session they arrive in:
  an empty plan, a plan while one is staged or tracked, a start command without a staged
  plan or while tracking, a stop command while not tracking, an unknown command.
\<close>

fun rejectedInput :: "Status \<Rightarrow> ('seg, 'p, 'w) Event \<Rightarrow> bool" where
  "rejectedInput st (PathMsg path) = (segment path = [] \<or> st \<noteq> Idle)"
| "rejectedInput st (CommandRequest StartTracking) = (st \<noteq> PlanStaged)"
| "rejectedInput st (CommandRequest StopTracking) = (st \<noteq> Tracking)"
| "rejectedInput st (CommandRequest Unknown) = True"
| "rejectedInput st (OdometryMsg odometry) = False"
| "rejectedInput st Tick = False"
| "rejectedInput st StateRequest = False"

text \<open>The most recent odometry message among the events of a run, if there is one.\<close>

fun lastOdometry :: "('seg, 'p, 'w) Event list \<Rightarrow> ('p, 'w) Odometry option" where
  "lastOdometry [] = None"
| "lastOdometry (e # es) =
     (case lastOdometry es of
        Some odometry \<Rightarrow> Some odometry
      | None \<Rightarrow> (case e of OdometryMsg odometry \<Rightarrow> Some odometry | _ \<Rightarrow> None))"

subsection \<open>A concrete node for worked examples\<close>

text \<open>
  Modelled from the spec: the fail-safe command of section 4.6, with zero throttle, neutral
  steering and the forward gear. It stands for \<^verbatim>\<open>getFailProofControlCommand()\<close> in the
  examples only; every general theorem holds for any fail-proof command.
\<close>

definition failSafeCommand :: PriusControl where
  "failSafeCommand = \<lparr>gear = FORWARD, steer = 0, throttle = 0\<rparr>"

text \<open>
  A tracker for the examples: its state is the list of results its next calls of
  \<^verbatim>\<open>advance()\<close> will give (failure once the list is used up).
\<close>

definition scriptedTracker :: "bool list External" where
  "scriptedTracker =
     \<lparr>pathTracker_advance = (\<lambda>t. case t of [] \<Rightarrow> (False, []) | b # bs \<Rightarrow> (b, bs)),
      pathTracker_getSteeringAngle = (\<lambda>t. 0.3),
      pathTracker_getLongitudinalVelocity = (\<lambda>t. 1.5),
      pathTracker_stopTracking = (\<lambda>t. []),
      getFailProofControlCommand = failSafeCommand\<rparr>"

definition zeroOdometry :: "(nat, nat) Odometry" where
  "zeroOdometry = \<lparr>pose_pose = 0, twist_twist = 0\<rparr>"

definition someOdometry :: "(nat, nat) Odometry" where
  "someOdometry = \<lparr>pose_pose = 7, twist_twist = 2\<rparr>"

definition planA :: "nat Path" where
  "planA = \<lparr>segment = [1, 2, 3]\<rparr>"

definition planB :: "nat Path" where
  "planB = \<lparr>segment = [4, 5, 6]\<rparr>"

definition emptyPlan :: "nat Path" where
  "emptyPlan = \<lparr>segment = []\<rparr>"

text \<open>The node of the examples before any event, and after a plan and a start command.\<close>

definition idleNode :: "(bool list, nat, nat) PriusControllerRos" where
  "idleNode = initialState [True, False] zeroOdometry"

definition stagedEvents :: "(nat, nat, nat) Event list" where
  "stagedEvents = [PathMsg planA]"

definition trackingEvents :: "(nat, nat, nat) Event list" where
  "trackingEvents = [PathMsg planA, CommandRequest StartTracking]"

section \<open>Properties of the node\<close>

subsection \<open>Unfolding the callbacks\<close>

lemmas log_defs = ROS_INFO_STREAM_def ROS_WARN_STREAM_def ROS_ERROR_STREAM_def

lemmas callback_defs = pathCallback_def processStartTrackingCommand_def
  processAbortTrackingCommand_def stopTracking_def advance_def publishControl_def
  priusStateCallback_def currentStateRequestService_def

lemmas example_defs = idleNode_def stagedEvents_def trackingEvents_def initialState_def
  scriptedTracker_def planA_def planB_def emptyPlan_def zeroOdometry_def someOdometry_def

subsection \<open>The flags stay in sync\<close>

lemma flagsInSync_initialState: "flagsInSync (initialState trk odom)"
  by (simp add: flagsInSync_def initialState_def)

lemma flagsInSync_pathCallback: "flagsInSync s \<Longrightarrow> flagsInSync (pathCallback path s)"
  by (simp add: flagsInSync_def pathCallback_def log_defs)

lemma flagsInSync_stopTracking: "flagsInSync (stopTracking X s)"
  by (simp add: flagsInSync_def stopTracking_def log_defs)

lemma flagsInSync_controllerCommandService:
  "flagsInSync s \<Longrightarrow> flagsInSync (snd (controllerCommandService X c s))"
proof (cases c)
  case StartTracking
  assume "flagsInSync s"
  with StartTracking show ?thesis
    by (simp add: flagsInSync_def processStartTrackingCommand_def log_defs)
next
  case StopTracking
  assume "flagsInSync s"
  with StopTracking show ?thesis
    by (simp add: processAbortTrackingCommand_def flagsInSync_stopTracking)
       (simp add: flagsInSync_def log_defs)
next
  case Unknown
  assume "flagsInSync s"
  with Unknown show ?thesis
    by (simp add: flagsInSync_def log_defs)
qed

lemma flagsInSync_advance: "flagsInSync s \<Longrightarrow> flagsInSync (advance X s)"
  by (cases "pathTracker_advance X (pathTracker s)")
     (simp add: flagsInSync_def advance_def publishControl_def stopTracking_def log_defs Let_def)

lemma flagsInSync_dispatch: "flagsInSync s \<Longrightarrow> flagsInSync (dispatch X s e)"
proof (cases e)
  case (OdometryMsg odometry)
  assume "flagsInSync s"
  with OdometryMsg show ?thesis
    by (simp add: flagsInSync_def priusStateCallback_def)
next
  case StateRequest
  assume "flagsInSync s"
  with StateRequest show ?thesis
    by (simp add: currentStateRequestService_def)
qed (simp_all add: flagsInSync_pathCallback flagsInSync_controllerCommandService
       flagsInSync_advance)

lemma flagsInSync_run: "flagsInSync s \<Longrightarrow> flagsInSync (run X s es)"
  by (induction es arbitrary: s) (simp_all add: flagsInSync_dispatch)

lemma flagsInSync_reachable: "flagsInSync (run X (initialState trk odom) es)"
  by (rule flagsInSync_run) (rule flagsInSync_initialState)

text \<open>What the status says about the flags of a state whose flags are in sync.\<close>

lemma status_Tracking_iff:
  "flagsInSync s \<Longrightarrow> status s = Tracking \<longleftrightarrow> currentlyExecutingPlan s"
  by (auto simp: flagsInSync_def status_def)

lemma status_Idle_iff: "status s = Idle \<longleftrightarrow> \<not> planReceived s"
  by (simp add: status_def)

lemma status_PlanStaged_iff:
  "flagsInSync s \<Longrightarrow> status s = PlanStaged \<longleftrightarrow> planReceived s \<and> \<not> currentlyExecutingPlan s"
  by (auto simp: flagsInSync_def status_def)

subsection \<open>The cached odometry\<close>

lemma priusState_pathCallback: "priusState (pathCallback path s) = priusState s"
  by (simp add: pathCallback_def log_defs)

lemma priusState_controllerCommandService:
  "priusState (snd (controllerCommandService X c s)) = priusState s"
  by (cases c)
     (simp_all add: processStartTrackingCommand_def processAbortTrackingCommand_def
        stopTracking_def log_defs)

lemma priusState_advance: "priusState (advance X s) = priusState s"
  by (cases "pathTracker_advance X (pathTracker s)")
     (simp add: advance_def publishControl_def stopTracking_def log_defs Let_def)

lemma priusState_dispatch:
  "priusState (dispatch X s e) =
     (case e of OdometryMsg odometry \<Rightarrow> odometry | _ \<Rightarrow> priusState s)"
  by (cases e)
     (simp_all add: priusState_pathCallback priusState_controllerCommandService
        priusState_advance priusStateCallback_def currentStateRequestService_def)

lemma priusState_run:
  "priusState (run X s es) =
     (case lastOdometry es of None \<Rightarrow> priusState s | Some odometry \<Rightarrow> odometry)"
proof (induction es arbitrary: s)
  case Nil
  show ?case by simp
next
  case (Cons e es)
  show ?case
    by (simp add: Cons.IH priusState_dispatch split: option.split Event.split)
qed

subsection \<open>The control step\<close>

text \<open>
  Claim C1. A call of \<^verbatim>\<open>advance\<close> at which the session is not tracking (the plan-received
  and the start-command flag are not both set) publishes exactly one message, the fail-proof
  command, and changes nothing else of the node. This holds in every state, so in
  particular in the state reached by any sequence of events.
\<close>

theorem advance_not_tracking_publishes_fail_proof:
  "status s \<noteq> Tracking \<Longrightarrow>
     advance X s = s\<lparr>priusControlPub := priusControlPub s @ [getFailProofControlCommand X]\<rparr>"
  by (auto simp: status_def advance_def publishControl_def split: if_splits)

theorem advance_not_tracking_publishes_fail_proof_witness:
  "status (run scriptedTracker idleNode stagedEvents) \<noteq> Tracking \<and>
   priusControlPub (advance scriptedTracker (run scriptedTracker idleNode stagedEvents)) =
     [failSafeCommand]"
  using advance_not_tracking_publishes_fail_proof
    [where s = "run scriptedTracker idleNode stagedEvents" and X = scriptedTracker]
  by (simp add: status_def example_defs pathCallback_def log_defs)

text \<open>What a failing control step does to a tracking session, for any tracker.\<close>

lemma advance_tracker_failure:
  assumes "planReceived s" and "receivedStartTrackingCommand s"
    and "pathTracker_advance X (pathTracker s) = (False, t')"
  shows "advance X s =
     s\<lparr>planReceived := False, currentlyExecutingPlan := False,
       receivedStartTrackingCommand := False, publishTrackingStatus := True,
       pathTracker := pathTracker_stopTracking X t',
       trackerCalls := trackerCalls s @ [CallAdvance, CallStopTracking],
       priusControlPub := priusControlPub s @ [fixedControl],
       rosout := rosout s @ [(ERROR, msgAdvanceFailed), (INFO, msgStoppedTracking)]\<rparr>"
  using assms by (simp add: advance_def publishControl_def stopTracking_def log_defs Let_def)

text \<open>
  Claim C2. The tracker's \<^verbatim>\<open>advance()\<close> fails during a control step of a tracking
  session. The example runs the node through a plan and a start command, with a tracker
  whose next \<^verbatim>\<open>advance()\<close> fails. After the step the session is idle, as the claim says;
  the message the step publishes is the fixed command of lines 87 to 89, which is not the
  fail-proof command.
\<close>

theorem advance_tracker_failure_publishes_fixed_control:
  "status (run scriptedTracker (initialState [False] zeroOdometry) trackingEvents) = Tracking \<and>
   fst (pathTracker_advance scriptedTracker
     (pathTracker (run scriptedTracker (initialState [False] zeroOdometry) trackingEvents)))
     = False \<and>
   status (run scriptedTracker (initialState [False] zeroOdometry) (trackingEvents @ [Tick]))
     = Idle \<and>
   priusControlPub
     (run scriptedTracker (initialState [False] zeroOdometry) (trackingEvents @ [Tick]))
     = [\<lparr>gear = FORWARD, steer = 0.8, throttle = 0.02\<rparr>] \<and>
   \<lparr>gear = FORWARD, steer = 0.8, throttle = 0.02\<rparr> \<noteq> getFailProofControlCommand scriptedTracker"
  by (simp add: status_def example_defs callback_defs log_defs fixedControl_def
        failSafeCommand_def Let_def)

text \<open>
  Claim C6. A control step of a tracking session in which the tracker's \<^verbatim>\<open>advance()\<close>
  succeeds publishes exactly one message, the command with the forward gear, steering 0.8
  and throttle 0.02, whatever steering angle and longitudinal velocity the tracker reports.
\<close>

theorem advance_success_publishes_fixed_control:
  "status s = Tracking \<Longrightarrow> fst (pathTracker_advance X (pathTracker s)) \<Longrightarrow>
     priusControlPub
       (advance (X\<lparr>pathTracker_getSteeringAngle := steering,
                   pathTracker_getLongitudinalVelocity := velocity\<rparr>) s) =
     priusControlPub s @ [\<lparr>gear = FORWARD, steer = 0.8, throttle = 0.02\<rparr>]"
  by (cases "pathTracker_advance X (pathTracker s)")
     (auto simp: status_def advance_def publishControl_def fixedControl_def Let_def
        split: if_splits)

theorem advance_success_publishes_fixed_control_witness:
  "status (run scriptedTracker idleNode trackingEvents) = Tracking \<and>
   fst (pathTracker_advance scriptedTracker
     (pathTracker (run scriptedTracker idleNode trackingEvents))) \<and>
   priusControlPub
     (advance (scriptedTracker\<lparr>pathTracker_getSteeringAngle := (\<lambda>t. 0.1),
                   pathTracker_getLongitudinalVelocity := (\<lambda>t. 9)\<rparr>)
        (run scriptedTracker idleNode trackingEvents)) =
     [\<lparr>gear = FORWARD, steer = 0.8, throttle = 0.02\<rparr>]"
  using advance_success_publishes_fixed_control
    [where s = "run scriptedTracker idleNode trackingEvents" and X = scriptedTracker
       and steering = "\<lambda>t. 0.1" and velocity = "\<lambda>t. 9"]
  by (simp add: status_def example_defs pathCallback_def processStartTrackingCommand_def
        log_defs)

subsection \<open>Plans\<close>

text \<open>
  The worked example: after a plan the node has a staged plan, after the start command it
  is tracking.
\<close>

lemma run_stagedEvents:
  "run scriptedTracker idleNode stagedEvents =
     idleNode\<lparr>planReceived := True, rosout := [(INFO, msgPlanReceived 3)]\<rparr>"
  by (simp add: example_defs pathCallback_def log_defs numeral_3_eq_3)

lemma run_trackingEvents:
  "run scriptedTracker idleNode trackingEvents =
     idleNode\<lparr>planReceived := True, currentlyExecutingPlan := True,
       receivedStartTrackingCommand := True,
       rosout := [(INFO, msgPlanReceived 3), (WARN, msgStartRequested)]\<rparr>"
  by (simp add: example_defs pathCallback_def processStartTrackingCommand_def log_defs
        numeral_3_eq_3)

text \<open>
  Claim C3, as stated, fails. With plan A staged and not yet tracked, the status is not idle,
  and plan B is not rejected: the callback takes neither early return, writes that it
  received a plan and sets \<^verbatim>\<open>planReceived_\<close> again.
\<close>

theorem plan_while_staged_not_rejected:
  "status (run scriptedTracker idleNode stagedEvents) \<noteq> Idle \<and>
   \<not> planRejected planB (run scriptedTracker idleNode stagedEvents) \<and>
   pathCallback planB (run scriptedTracker idleNode stagedEvents) =
     ROS_INFO_STREAM (msgPlanReceived 3) (run scriptedTracker idleNode stagedEvents)"
  by (simp add: run_stagedEvents)
     (simp add: status_def planRejected_def example_defs pathCallback_def log_defs
        numeral_3_eq_3)

text \<open>
  Claim C3, amended. In every state that a sequence of events leads to and whose status is
  not idle, submitting a plan does exactly this. While the session is tracking, the plan is
  rejected with the warning that the robot is tracking the previous plan. While a plan is
  only staged, an empty plan is rejected with the warning for an empty plan, and a non-empty
  plan is accepted again: the callback writes the line that reports the received plan with
  its number of segments. In all three cases the line in the log is the only change of the
  node, so the status stays what it was; the plan is rejected exactly when the session is
  tracking or the plan is empty.
\<close>

theorem pathCallback_plan_in_flight:
  "status (run X (initialState trk odom) es) \<noteq> Idle \<Longrightarrow>
     pathCallback path (run X (initialState trk odom) es) =
       (if status (run X (initialState trk odom) es) = Tracking
        then ROS_WARN_STREAM msgTrackingPreviousPlan (run X (initialState trk odom) es)
        else if segment path = []
        then ROS_WARN_STREAM msgEmptyPlan (run X (initialState trk odom) es)
        else ROS_INFO_STREAM (msgPlanReceived (length (segment path)))
               (run X (initialState trk odom) es)) \<and>
     (pathCallback path (run X (initialState trk odom) es))
        \<lparr>rosout := rosout (run X (initialState trk odom) es)\<rparr>
       = run X (initialState trk odom) es \<and>
     status (pathCallback path (run X (initialState trk odom) es)) =
       status (run X (initialState trk odom) es) \<and>
     planRejected path (run X (initialState trk odom) es) =
       (status (run X (initialState trk odom) es) = Tracking \<or> segment path = [])"
proof -
  define s where "s = run X (initialState trk odom) es"
  assume "status (run X (initialState trk odom) es) \<noteq> Idle"
  then have received: "planReceived s"
    by (simp add: s_def status_Idle_iff)
  have sync: "flagsInSync s"
    unfolding s_def by (rule flagsInSync_reachable)
  have tracking: "status s = Tracking \<longleftrightarrow> currentlyExecutingPlan s"
    using sync by (rule status_Tracking_iff)
  have same: "s\<lparr>planReceived := True\<rparr> = s"
    using received by simp
  have accepted: "(ROS_INFO_STREAM msg s)\<lparr>planReceived := True\<rparr> = ROS_INFO_STREAM msg s"
    for msg
    using received by (simp add: ROS_INFO_STREAM_def)
  have exact: "pathCallback path s =
      (if status s = Tracking then ROS_WARN_STREAM msgTrackingPreviousPlan s
       else if segment path = [] then ROS_WARN_STREAM msgEmptyPlan s
       else ROS_INFO_STREAM (msgPlanReceived (length (segment path))) s)"
    unfolding tracking by (simp add: pathCallback_def accepted)
  have frame: "(pathCallback path s)\<lparr>rosout := rosout s\<rparr> = s"
    unfolding exact by (simp add: log_defs)
  have unchanged: "status (pathCallback path s) = status s"
    unfolding exact by (simp add: log_defs status_def)
  have rejected: "planRejected path s = (status s = Tracking \<or> segment path = [])"
    unfolding planRejected_def exact
    by (auto simp: log_defs dest: arg_cong [where f = rosout])
  from exact frame unchanged rejected show ?thesis
    unfolding s_def by simp
qed

theorem pathCallback_plan_in_flight_witness:
  "(status (run scriptedTracker idleNode trackingEvents) \<noteq> Idle \<and>
    pathCallback planB (run scriptedTracker idleNode trackingEvents) =
      ROS_WARN_STREAM msgTrackingPreviousPlan (run scriptedTracker idleNode trackingEvents) \<and>
    planRejected planB (run scriptedTracker idleNode trackingEvents)) \<and>
   (status (run scriptedTracker idleNode stagedEvents) \<noteq> Idle \<and>
    pathCallback planB (run scriptedTracker idleNode stagedEvents) =
      ROS_INFO_STREAM (msgPlanReceived 3) (run scriptedTracker idleNode stagedEvents) \<and>
    status (pathCallback planB (run scriptedTracker idleNode stagedEvents)) = PlanStaged \<and>
    \<not> planRejected planB (run scriptedTracker idleNode stagedEvents)) \<and>
   (pathCallback emptyPlan (run scriptedTracker idleNode stagedEvents) =
      ROS_WARN_STREAM msgEmptyPlan (run scriptedTracker idleNode stagedEvents) \<and>
    planRejected emptyPlan (run scriptedTracker idleNode stagedEvents))"
proof -
  have tracking: "status (run scriptedTracker idleNode trackingEvents) = Tracking"
    by (simp add: run_trackingEvents status_def)
  have staged: "status (run scriptedTracker idleNode stagedEvents) = PlanStaged"
    by (simp add: run_stagedEvents status_def) (simp add: idleNode_def initialState_def)
  have segments: "segment planB \<noteq> []" "length (segment planB) = 3" "segment emptyPlan = []"
    by (simp_all add: planB_def emptyPlan_def)
  have while_tracking:
    "status (run scriptedTracker idleNode trackingEvents) \<noteq> Idle \<and>
     pathCallback planB (run scriptedTracker idleNode trackingEvents) =
       ROS_WARN_STREAM msgTrackingPreviousPlan (run scriptedTracker idleNode trackingEvents) \<and>
     planRejected planB (run scriptedTracker idleNode trackingEvents)"
    using pathCallback_plan_in_flight
        [where X = scriptedTracker and trk = "[True, False]" and odom = zeroOdometry
           and es = trackingEvents and path = planB]
    unfolding idleNode_def [symmetric] tracking
    by simp
  have while_staged:
    "status (run scriptedTracker idleNode stagedEvents) \<noteq> Idle \<and>
     pathCallback planB (run scriptedTracker idleNode stagedEvents) =
       ROS_INFO_STREAM (msgPlanReceived 3) (run scriptedTracker idleNode stagedEvents) \<and>
     status (pathCallback planB (run scriptedTracker idleNode stagedEvents)) = PlanStaged \<and>
     \<not> planRejected planB (run scriptedTracker idleNode stagedEvents)"
    using pathCallback_plan_in_flight
        [where X = scriptedTracker and trk = "[True, False]" and odom = zeroOdometry
           and es = stagedEvents and path = planB]
    unfolding idleNode_def [symmetric] staged
    by (auto simp: segments)
  have empty_while_staged:
    "pathCallback emptyPlan (run scriptedTracker idleNode stagedEvents) =
       ROS_WARN_STREAM msgEmptyPlan (run scriptedTracker idleNode stagedEvents) \<and>
     planRejected emptyPlan (run scriptedTracker idleNode stagedEvents)"
    using pathCallback_plan_in_flight
        [where X = scriptedTracker and trk = "[True, False]" and odom = zeroOdometry
           and es = stagedEvents and path = emptyPlan]
    unfolding idleNode_def [symmetric] staged
    by (auto simp: segments)
  from while_tracking while_staged empty_while_staged show ?thesis
    by (intro conjI) (elim conjE, assumption)+
qed

text \<open>
  Claim C4, as stated, fails. An idle node that accepts plan A is in the same state as one
  that accepts the different plan B: no member of the node holds the accepted plan.
\<close>

theorem accepted_plan_not_stored:
  "planA \<noteq> planB \<and> status idleNode = Idle \<and>
   \<not> planRejected planA idleNode \<and> \<not> planRejected planB idleNode \<and>
   pathCallback planA idleNode = pathCallback planB idleNode"
  by (simp add: status_def planRejected_def example_defs pathCallback_def log_defs)

text \<open>
  Claim C4, amended. In every idle state that a sequence of events leads to, a non-empty
  plan is accepted: the callback sets \<^verbatim>\<open>planReceived_\<close>, so that the status becomes
  plan-staged, and writes the number of segments to the log. Nothing else of the node
  changes, and nothing of the plan but that number is kept.
\<close>

theorem pathCallback_accepts_when_idle:
  "status (run X (initialState trk odom) es) = Idle \<Longrightarrow> segment path \<noteq> [] \<Longrightarrow>
     pathCallback path (run X (initialState trk odom) es) =
       (run X (initialState trk odom) es)
         \<lparr>planReceived := True,
          rosout := rosout (run X (initialState trk odom) es) @
            [(INFO, msgPlanReceived (length (segment path)))]\<rparr> \<and>
     status (pathCallback path (run X (initialState trk odom) es)) = PlanStaged"
proof -
  define s where "s = run X (initialState trk odom) es"
  assume "status (run X (initialState trk odom) es) = Idle" and nonempty: "segment path \<noteq> []"
  then have idle: "\<not> planReceived s"
    by (simp add: s_def status_Idle_iff)
  have sync: "flagsInSync s"
    unfolding s_def by (rule flagsInSync_reachable)
  from idle sync have flags: "\<not> currentlyExecutingPlan s" "\<not> receivedStartTrackingCommand s"
    by (auto simp: flagsInSync_def)
  from flags nonempty have "pathCallback path s =
      s\<lparr>planReceived := True,
        rosout := rosout s @ [(INFO, msgPlanReceived (length (segment path)))]\<rparr>"
    by (simp add: pathCallback_def log_defs)
  moreover from this flags have "status (pathCallback path s) = PlanStaged"
    by (simp add: status_def)
  ultimately show ?thesis
    unfolding s_def by simp
qed

theorem pathCallback_accepts_when_idle_witness:
  "status (run scriptedTracker idleNode ([] :: (nat, nat, nat) Event list)) = Idle \<and>
   segment planA \<noteq> [] \<and>
   pathCallback planA idleNode =
     idleNode\<lparr>planReceived := True, rosout := [(INFO, msgPlanReceived 3)]\<rparr> \<and>
   status (pathCallback planA idleNode) = PlanStaged"
  using pathCallback_accepts_when_idle
    [where X = scriptedTracker and trk = "[True, False]" and odom = zeroOdometry
       and es = "[] :: (nat, nat, nat) Event list" and path = planA]
  by (simp add: idleNode_def [symmetric])
     (simp add: status_def example_defs numeral_3_eq_3)

subsection \<open>Commands\<close>

text \<open>
  Claim C5. In every tracking state that a sequence of events leads to, the stop command
  is acknowledged and leaves the session idle with all three flags cleared; during the
  transition the node calls the tracker once, and the call is \<^verbatim>\<open>stopTracking()\<close>.
  The node holds no plan of its own; the cleared \<^verbatim>\<open>planReceived_\<close> is all that
  "no current plan" can say of it.
\<close>

theorem stop_command_from_tracking:
  "status (run X (initialState trk odom) es) = Tracking \<Longrightarrow>
     fst (controllerCommandService X StopTracking (run X (initialState trk odom) es)) = True \<and>
     dispatch X (run X (initialState trk odom) es) (CommandRequest StopTracking) =
       (run X (initialState trk odom) es)
         \<lparr>planReceived := False, currentlyExecutingPlan := False,
          receivedStartTrackingCommand := False,
          pathTracker :=
            pathTracker_stopTracking X (pathTracker (run X (initialState trk odom) es)),
          trackerCalls := trackerCalls (run X (initialState trk odom) es) @ [CallStopTracking],
          rosout := rosout (run X (initialState trk odom) es) @ [(INFO, msgStoppedTracking)]\<rparr> \<and>
     status (dispatch X (run X (initialState trk odom) es) (CommandRequest StopTracking)) = Idle"
proof -
  define s where "s = run X (initialState trk odom) es"
  assume "status (run X (initialState trk odom) es) = Tracking"
  then have tracking: "status s = Tracking"
    by (simp add: s_def)
  have "flagsInSync s"
    unfolding s_def by (rule flagsInSync_reachable)
  with tracking have executing: "currentlyExecutingPlan s"
    by (simp add: status_Tracking_iff)
  then have "dispatch X s (CommandRequest StopTracking) =
      s\<lparr>planReceived := False, currentlyExecutingPlan := False,
        receivedStartTrackingCommand := False,
        pathTracker := pathTracker_stopTracking X (pathTracker s),
        trackerCalls := trackerCalls s @ [CallStopTracking],
        rosout := rosout s @ [(INFO, msgStoppedTracking)]\<rparr>"
    by (simp add: processAbortTrackingCommand_def stopTracking_def log_defs)
  moreover from this have "status (dispatch X s (CommandRequest StopTracking)) = Idle"
    by (simp add: status_def)
  ultimately show ?thesis
    unfolding s_def by simp
qed

theorem stop_command_from_tracking_witness:
  "status (run scriptedTracker idleNode trackingEvents) = Tracking \<and>
   status (run scriptedTracker idleNode (trackingEvents @ [CommandRequest StopTracking])) = Idle \<and>
   trackerCalls (run scriptedTracker idleNode (trackingEvents @ [CommandRequest StopTracking]))
     = [CallStopTracking]"
  using stop_command_from_tracking
    [where X = scriptedTracker and trk = "[True, False]" and odom = zeroOdometry
       and es = trackingEvents]
  by (simp add: idleNode_def [symmetric] run_trackingEvents status_def)
     (simp add: example_defs processAbortTrackingCommand_def stopTracking_def log_defs
        pathCallback_def processStartTrackingCommand_def)

text \<open>
  Claim C7. In every state that a sequence of events leads to, an input that the spec
  lists as rejected changes nothing of the node but its log: the flags, and with them the
  status, the tracker, the calls made on it, the published messages and the cached odometry
  are as before.
\<close>

theorem rejected_input_no_transition:
  "rejectedInput (status (run X (initialState trk odom) es)) e \<Longrightarrow>
     (dispatch X (run X (initialState trk odom) es) e)
        \<lparr>rosout := rosout (run X (initialState trk odom) es)\<rparr>
       = run X (initialState trk odom) es"
proof -
  define s where "s = run X (initialState trk odom) es"
  assume "rejectedInput (status (run X (initialState trk odom) es)) e"
  then have rejected: "rejectedInput (status s) e"
    by (simp add: s_def)
  have sync: "flagsInSync s"
    unfolding s_def by (rule flagsInSync_reachable)
  have same: "planReceived s \<Longrightarrow> s\<lparr>planReceived := True\<rparr> = s"
    by simp
  have "(dispatch X s e)\<lparr>rosout := rosout s\<rparr> = s"
  proof (cases e)
    case (PathMsg path)
    with rejected have "segment path = [] \<or> planReceived s"
      by (simp add: status_Idle_iff)
    with PathMsg same show ?thesis
      by (auto simp: pathCallback_def log_defs)
  next
    case (CommandRequest c)
    show ?thesis
    proof (cases c)
      case StartTracking
      with rejected CommandRequest have "status s \<noteq> PlanStaged"
        by simp
      with sync have "\<not> planReceived s \<or> currentlyExecutingPlan s"
        by (simp add: status_PlanStaged_iff)
      with StartTracking CommandRequest show ?thesis
        by (auto simp: processStartTrackingCommand_def log_defs)
    next
      case StopTracking
      with rejected CommandRequest have "status s \<noteq> Tracking"
        by simp
      with sync have "\<not> currentlyExecutingPlan s"
        by (simp add: status_Tracking_iff)
      with StopTracking CommandRequest show ?thesis
        by (simp add: processAbortTrackingCommand_def log_defs)
    next
      case Unknown
      with CommandRequest show ?thesis
        by (simp add: log_defs)
    qed
  next
    case (OdometryMsg odometry)
    with rejected show ?thesis by simp
  next
    case Tick
    with rejected show ?thesis by simp
  next
    case StateRequest
    with rejected show ?thesis by simp
  qed
  then show ?thesis
    unfolding s_def .
qed

theorem rejected_input_no_transition_witness:
  "rejectedInput (status (run scriptedTracker idleNode stagedEvents))
     (CommandRequest StopTracking :: (nat, nat, nat) Event) \<and>
   (dispatch scriptedTracker (run scriptedTracker idleNode stagedEvents)
      (CommandRequest StopTracking :: (nat, nat, nat) Event))
      \<lparr>rosout := rosout (run scriptedTracker idleNode stagedEvents)\<rparr>
     = run scriptedTracker idleNode stagedEvents \<and>
   rosout (dispatch scriptedTracker (run scriptedTracker idleNode stagedEvents)
      (CommandRequest StopTracking :: (nat, nat, nat) Event))
     = [(INFO, msgPlanReceived 3), (WARN, msgCannotStop)]"
  using rejected_input_no_transition
    [where X = scriptedTracker and trk = "[True, False]" and odom = zeroOdometry
       and es = stagedEvents and e = "CommandRequest StopTracking :: (nat, nat, nat) Event"]
  by (simp add: idleNode_def [symmetric] run_stagedEvents status_def)
     (simp add: example_defs processAbortTrackingCommand_def log_defs)

subsection \<open>Telemetry\<close>

text \<open>
  Claim C8, as stated, fails. A state request that arrives before any odometry message is
  answered like any other: the service returns true with the pose and the twist of the
  default-constructed member. Here that answer is the one the node gives after it has
  observed the odometry message with pose 0 and twist 0, so it does not say that nothing
  was observed.
\<close>

theorem state_request_before_odometry_not_empty:
  "lastOdometry ([] :: (nat, nat, nat) Event list) = None \<and>
   fst (currentStateRequestService idleNode) = True \<and>
   fst (snd (currentStateRequestService idleNode)) = \<lparr>res_pose = 0, res_twist = 0\<rparr> \<and>
   fst (snd (currentStateRequestService idleNode)) =
     fst (snd (currentStateRequestService
       (run scriptedTracker idleNode [OdometryMsg zeroOdometry :: (nat, nat, nat) Event])))"
  by (simp add: example_defs currentStateRequestService_def priusStateCallback_def)

text \<open>
  Claim C8, amended. After any sequence of events the state request is answered with true
  and with the pose and the twist of the most recent odometry message of the sequence,
  whatever the session status; when the sequence has no odometry message, with the pose and
  the twist of the odometry the node was constructed with. The request leaves the node as
  it is.
\<close>

theorem state_request_returns_last_odometry:
  "currentStateRequestService (run X (initialState trk odom) es) =
     (True,
      (case lastOdometry es of
         None \<Rightarrow> \<lparr>res_pose = pose_pose odom, res_twist = twist_twist odom\<rparr>
       | Some odometry \<Rightarrow> \<lparr>res_pose = pose_pose odometry, res_twist = twist_twist odometry\<rparr>),
      run X (initialState trk odom) es)"
proof -
  have "priusState (run X (initialState trk odom) es) =
      (case lastOdometry es of None \<Rightarrow> odom | Some odometry \<Rightarrow> odometry)"
    by (simp add: priusState_run initialState_def split: option.split)
  then show ?thesis
    by (simp add: currentStateRequestService_def split: option.split)
qed

text \<open>
  Claim C10. An odometry message changes the cached odometry and nothing else of the node,
  so no flag and not the status. A plan, a command and a control step leave the cached
  odometry as it is. A state request leaves the whole node as it is.
\<close>

theorem odometry_frame:
  "(priusStateCallback odometry s)\<lparr>priusState := priusState s\<rparr> = s \<and>
   priusState (priusStateCallback odometry s) = odometry \<and>
   status (priusStateCallback odometry s) = status s \<and>
   priusState (pathCallback path s) = priusState s \<and>
   priusState (snd (controllerCommandService X c s)) = priusState s \<and>
   priusState (advance X s) = priusState s \<and>
   snd (snd (currentStateRequestService s)) = s"
  by (simp add: priusState_pathCallback priusState_controllerCommandService
        priusState_advance)
     (simp add: priusStateCallback_def currentStateRequestService_def status_def)

subsection \<open>The flags\<close>

text \<open>
  Claim C9. In every state that a sequence of plans, commands, control steps, odometry
  messages and state requests leads to from the initial state, the start-command flag and
  the executing flag are equal, and the executing flag is set only when the plan-received
  flag is.
\<close>

theorem flags_in_sync_in_every_run:
  "flagsInSync (run X (initialState trk odom) es)"
  by (rule flagsInSync_reachable)

theorem flags_in_sync_in_every_run_witness:
  "flagsInSync (run scriptedTracker idleNode trackingEvents) \<and>
   currentlyExecutingPlan (run scriptedTracker idleNode trackingEvents) \<and>
   receivedStartTrackingCommand (run scriptedTracker idleNode trackingEvents) \<and>
   planReceived (run scriptedTracker idleNode trackingEvents)"
  using flags_in_sync_in_every_run
    [where X = scriptedTracker and trk = "[True, False]" and odom = zeroOdometry
       and es = trackingEvents]
  by (simp add: idleNode_def [symmetric] run_trackingEvents)

end
